theory Spec2Isabelle
  imports Main "HOL-Library.AList" "HOL-Library.Char_ord" "HOL-Library.List_Lexorder"
begin

section \<open>Data model\<close>

text \<open>
  The message objects of the extension. \<open>message_data\<close> is the object built by the
  input box, sent over a transport and handed to the subscribers
  (\<^verbatim>\<open>{ userId, nickname, roomId, text, timestamp }\<close>); \<open>stored_message\<close> is the row
  that \<^verbatim>\<open>saveMessage\<close> adds to the Dexie table \<^verbatim>\<open>messages\<close>, whose primary key
  \<^verbatim>\<open>++id\<close> is auto-incremented.

  JavaScript strings are modelled as \<open>string\<close>. A field that the source tests with
  \<^verbatim>\<open>||\<close> is falsy when it is absent and when it is the empty string (or the number 0):
  both cases take the same branch, so an absent nickname is \<open>''''\<close> and an absent
  timestamp is \<open>0\<close>. A user id that the storage does not hold is the empty string as
  well. The room id is optional: the content script builds messages without one.
\<close>

record message_data =
  md_userId :: string
  md_nickname :: string
  md_roomId :: "string option"
  md_text :: string
  md_timestamp :: int

record stored_message =
  sm_id :: nat
  sm_roomId :: "string option"
  sm_userId :: string
  sm_nickname :: string
  sm_text :: string
  sm_timestamp :: int

record room =
  room_id :: string
  room_name :: string
  room_videoId :: string
  room_createdAt :: int
  room_lastActive :: int

datatype error =
    StoreError
  | SchemaError string
  | PeerJSError
  | SocketError
  | TypeError

text \<open>
  The Dexie database \<^verbatim>\<open>YouTubeP2PChat\<close>. The table \<open>messages\<close> is kept in ascending
  order of the primary key: \<^verbatim>\<open>add\<close> appends a row under the next key. \<open>available\<close>
  is False when IndexedDB rejects every request; each function of the storage service
  catches that rejection in its \<^verbatim>\<open>try/catch\<close>.
\<close>

record database =
  messages :: "stored_message list"
  next_id :: nat
  rooms :: "room list"
  available :: bool

definition empty_db :: database where
  "empty_db = \<lparr>messages = [], next_id = 1, rooms = [], available = True\<rparr>"

text \<open>
  The schema of \<^verbatim>\<open>db.version(1).stores\<close>: the indexed key paths of each table, the
  primary key first.
\<close>

definition messages_schema :: "string list" where
  "messages_schema = [''id'', ''roomId'', ''userId'', ''timestamp'']"

definition rooms_schema :: "string list" where
  "rooms_schema = [''id'', ''name'', ''createdAt'']"

section \<open>The storage service\<close>

subsection \<open>saveMessage\<close>

text \<open>
  \<^verbatim>\<open>saveMessage(messageData)\<close>: the text goes through \<^verbatim>\<open>DOMPurify.sanitize\<close> (a
  parameter of the model, \<open>sanitize\<close>), the nickname defaults to \<^verbatim>\<open>'Anonymous'\<close>, the
  timestamp to \<^verbatim>\<open>Date.now()\<close> (the parameter \<open>now\<close>). The result is
  \<^verbatim>\<open>{ success: true, id }\<close> or, when the database throws, \<^verbatim>\<open>{ success: false, error }\<close>.
\<close>

definition saveMessage ::
  "(string \<Rightarrow> string) \<Rightarrow> int \<Rightarrow> message_data \<Rightarrow> database \<Rightarrow> (error + nat) \<times> database" where
  "saveMessage sanitize now messageData db =
     (if available db then
        (Inr (next_id db),
         db\<lparr>messages := messages db @
               [\<lparr>sm_id = next_id db,
                 sm_roomId = md_roomId messageData,
                 sm_userId = md_userId messageData,
                 sm_nickname = (if md_nickname messageData = [] then ''Anonymous''
                                else md_nickname messageData),
                 sm_text = sanitize (md_text messageData),
                 sm_timestamp = (if md_timestamp messageData = 0 then now
                                 else md_timestamp messageData)\<rparr>],
             next_id := next_id db + 1\<rparr>)
      else (Inl StoreError, db))"

subsection \<open>getMessagesForRoom\<close>

text \<open>
  \<^verbatim>\<open>db.messages.where(key).equals(value)\<close> walks the index \<open>key\<close>, which has to be
  an indexed key path of the table: Dexie rejects a query on any other path with a
  \<^verbatim>\<open>SchemaError\<close> (\<^verbatim>\<open>KeyPath ... is not indexed\<close>). The walk yields the rows with
  that value in ascending order of the primary key (an index orders equal keys by
  primary key). The value is a string here; \<open>id\<close> and \<open>timestamp\<close> hold numbers,
  which equal no string.
\<close>

definition rows_of_room :: "string \<Rightarrow> database \<Rightarrow> stored_message list" where
  "rows_of_room r db = filter (\<lambda>m. sm_roomId m = Some r) (messages db)"

definition messages_where_equals ::
  "string \<Rightarrow> string \<Rightarrow> database \<Rightarrow> error + stored_message list" where
  "messages_where_equals key v db =
     (if \<not> available db then Inl StoreError
      else if key \<notin> set messages_schema then Inl (SchemaError key)
      else if key = ''roomId'' then Inr (rows_of_room v db)
      else if key = ''userId'' then Inr (filter (\<lambda>m. sm_userId m = v) (messages db))
      else Inr [])"

text \<open>
  \<^verbatim>\<open>getMessagesForRoom(roomId, limit)\<close>: \<^verbatim>\<open>.reverse()\<close> walks the index backwards,
  \<^verbatim>\<open>.limit(limit)\<close> stops after \<open>limit\<close> rows, and the array is reversed again
  before it is returned. A rejected query gives \<open>[]\<close>.
\<close>

definition getMessagesForRoom :: "string \<Rightarrow> nat \<Rightarrow> database \<Rightarrow> stored_message list" where
  "getMessagesForRoom roomId limit db =
     (case messages_where_equals ''roomId'' roomId db of
        Inl e \<Rightarrow> []
      | Inr rows \<Rightarrow> rev (take limit (rev rows)))"

subsection \<open>getRooms\<close>

text \<open>
  \<^verbatim>\<open>db.rooms.orderBy(key)\<close> needs \<open>key\<close> to be an indexed key path of the table
  in the same way. The three indexed paths of \<open>rooms_schema\<close> are \<open>id\<close>, \<open>name\<close>
  and \<open>createdAt\<close>.
\<close>

definition rooms_orderBy :: "string \<Rightarrow> database \<Rightarrow> error + room list" where
  "rooms_orderBy key db =
     (if \<not> available db then Inl StoreError
      else if key \<notin> set rooms_schema then Inl (SchemaError key)
      else if key = ''id'' then Inr (sort_key room_id (rooms db))
      else if key = ''name'' then Inr (sort_key room_name (rooms db))
      else Inr (sort_key room_createdAt (rooms db)))"

text \<open>
  \<^verbatim>\<open>getRooms()\<close>: \<^verbatim>\<open>db.rooms.orderBy('lastActive').reverse().toArray()\<close>, and \<open>[]\<close>
  from the \<^verbatim>\<open>catch\<close> block.
\<close>

definition getRooms :: "database \<Rightarrow> room list" where
  "getRooms db =
     (case rooms_orderBy ''lastActive'' db of
        Inl e \<Rightarrow> []
      | Inr rs \<Rightarrow> rev rs)"

text \<open>\<^verbatim>\<open>saveRoom(roomData)\<close>: \<^verbatim>\<open>db.rooms.put\<close> replaces the row with the same id.\<close>

definition saveRoom :: "int \<Rightarrow> room \<Rightarrow> database \<Rightarrow> (error + unit) \<times> database" where
  "saveRoom now roomData db =
     (if available db then
        (Inr (),
         db\<lparr>rooms := filter (\<lambda>r. room_id r \<noteq> room_id roomData) (rooms db) @
               [\<lparr>room_id = room_id roomData,
                 room_name = (if room_name roomData = []
                              then ''Room for '' @ room_videoId roomData
                              else room_name roomData),
                 room_videoId = room_videoId roomData,
                 room_createdAt = (if room_createdAt roomData = 0 then now
                                   else room_createdAt roomData),
                 room_lastActive = now\<rparr>]\<rparr>)
      else (Inl StoreError, db))"

subsection \<open>searchMessages\<close>

text \<open>
  \<^verbatim>\<open>String.prototype.trim\<close> and \<^verbatim>\<open>toLowerCase\<close> on the characters a \<open>char\<close> can
  hold (code units below 256): the white space and line terminators of ECMAScript in
  that range, and the upper-case letters of Latin-1.
\<close>

definition isWhiteSpace :: "char \<Rightarrow> bool" where
  "isWhiteSpace c =
     (c = CHR 0x09 \<or> c = CHR 0x0A \<or> c = CHR 0x0B \<or> c = CHR 0x0C \<or> c = CHR 0x0D
      \<or> c = CHR 0x20 \<or> c = CHR 0xA0)"

definition trim :: "string \<Rightarrow> string" where
  "trim s = rev (dropWhile isWhiteSpace (rev (dropWhile isWhiteSpace s)))"

definition toLowerChar :: "char \<Rightarrow> char" where
  "toLowerChar c =
     (let n = (of_char c :: nat)
      in if (65 \<le> n \<and> n \<le> 90) \<or> (192 \<le> n \<and> n \<le> 222 \<and> n \<noteq> 215)
         then char_of (n + 32) else c)"

definition toLowerCase :: "string \<Rightarrow> string" where
  "toLowerCase s = map toLowerChar s"

text \<open>
  The search goes through Fuse.js (\<^verbatim>\<open>fuse.js ^6.6.2\<close> in \<^verbatim>\<open>package.json\<close>), built
  with \<^verbatim>\<open>keys: ['text', 'nickname']\<close> and \<^verbatim>\<open>threshold: 0.4\<close>. What the model keeps of
  the library:

  \<^item> the index holds a field of a document only when it is a string that is not blank
    (\<open>isBlank\<close>: nothing left after \<open>trim\<close>);
  \<^item> the searcher lower-cases the pattern and cuts it into chunks of at most 32
    characters, none for the empty pattern; a field matches when it equals the pattern
    or when the Bitap search of some chunk matches it. The Bitap search of one chunk is
    the parameter \<open>bitap\<close> (text, chunk, start index of the chunk);
  \<^item> a document is a result when one of its indexed fields matches; the results are
    sorted by score, ties in the order of the collection. The score of a document for
    a pattern is the parameter \<open>score\<close>.
\<close>

definition isBlank :: "string \<Rightarrow> bool" where
  "isBlank s = (trim s = [])"

definition bitap_chunks :: "string \<Rightarrow> (string \<times> nat) list" where
  "bitap_chunks pattern =
     (let len = length pattern
      in if len = 0 then []
         else if len > 32 then
           (let remainder = len mod 32; end = len - remainder
            in map (\<lambda>k. (take 32 (drop (32 * k) pattern), 32 * k)) [0 ..< end div 32]
               @ (if remainder \<noteq> 0 then [(drop (len - 32) pattern, len - 32)] else []))
         else [(pattern, 0)])"

definition searchIn :: "(string \<Rightarrow> string \<Rightarrow> nat \<Rightarrow> bool) \<Rightarrow> string \<Rightarrow> string \<Rightarrow> bool" where
  "searchIn bitap pattern txt =
     (let p = toLowerCase pattern; t = toLowerCase txt
      in p = t \<or> list_ex (\<lambda>(chunk, startIndex). bitap t chunk startIndex) (bitap_chunks p))"

definition fuse_matches ::
  "(string \<Rightarrow> string \<Rightarrow> nat \<Rightarrow> bool) \<Rightarrow> string \<Rightarrow> stored_message \<Rightarrow> bool" where
  "fuse_matches bitap query m =
     ((\<not> isBlank (sm_text m) \<and> searchIn bitap query (sm_text m))
      \<or> (\<not> isBlank (sm_nickname m) \<and> searchIn bitap query (sm_nickname m)))"

definition fuse_search ::
  "(string \<Rightarrow> string \<Rightarrow> nat \<Rightarrow> bool) \<Rightarrow> (string \<Rightarrow> stored_message \<Rightarrow> 's::linorder) \<Rightarrow>
   string \<Rightarrow> stored_message list \<Rightarrow> stored_message list" where
  "fuse_search bitap score query docs =
     sort_key (score query) (filter (fuse_matches bitap query) docs)"

text \<open>
  \<^verbatim>\<open>searchMessages(roomId, query)\<close>: the room's rows, the Fuse search over them, and
  \<^verbatim>\<open>.sort((a, b) => a.timestamp - b.timestamp)\<close> on the items found.
  \<^verbatim>\<open>Array.prototype.sort\<close> is stable, as \<open>sort_key\<close> is.
\<close>

definition searchMessages ::
  "(string \<Rightarrow> string \<Rightarrow> nat \<Rightarrow> bool) \<Rightarrow> (string \<Rightarrow> stored_message \<Rightarrow> 's::linorder) \<Rightarrow>
   string \<Rightarrow> string \<Rightarrow> database \<Rightarrow> stored_message list" where
  "searchMessages bitap score roomId query db =
     (case messages_where_equals ''roomId'' roomId db of
        Inl e \<Rightarrow> []
      | Inr rows \<Rightarrow> sort_key sm_timestamp (fuse_search bitap score query rows))"

text \<open>
  \<^verbatim>\<open>handleSearch\<close> of the chat container, the caller of \<open>searchMessages\<close>: a query
  that is blank after \<open>trim\<close> clears the results without calling the storage service.
\<close>

definition handleSearch ::
  "(string \<Rightarrow> string \<Rightarrow> nat \<Rightarrow> bool) \<Rightarrow> (string \<Rightarrow> stored_message \<Rightarrow> 's::linorder) \<Rightarrow>
   string \<Rightarrow> string \<Rightarrow> database \<Rightarrow> bool \<times> stored_message list" where
  "handleSearch bitap score roomId searchQuery db =
     (if trim searchQuery = [] then (False, [])
      else (True, searchMessages bitap score roomId searchQuery db))"

section \<open>Identity\<close>

text \<open>
  \<^verbatim>\<open>chrome.storage.local\<close>, with the keys the identity code reads and writes. A stored
  value is truthy when it is present and not the empty string.
\<close>

record chrome_storage =
  st_userId :: "string option"
  st_peerId :: "string option"
  st_nickname :: "string option"

definition truthy :: "string option \<Rightarrow> bool" where
  "truthy v = (case v of None \<Rightarrow> False | Some s \<Rightarrow> s \<noteq> [])"

text \<open>
  The \<^verbatim>\<open>chrome.runtime.onInstalled\<close> listener of the background worker; \<open>uuid\<close> is
  the value \<^verbatim>\<open>uuidv4()\<close> returns if it is called.
\<close>

definition onInstalled :: "string \<Rightarrow> chrome_storage \<Rightarrow> chrome_storage" where
  "onInstalled uuid st =
     (if \<not> truthy (st_userId st) then st\<lparr>st_userId := Some uuid\<rparr> else st)"

section \<open>The P2P service\<close>

text \<open>
  The state of a session: the fields of the \<^verbatim>\<open>P2PService\<close> singleton (\<open>peerId\<close> to
  \<open>useWebSocketFallback\<close>, as its constructor sets them), the database and
  \<^verbatim>\<open>chrome.storage.local\<close> it works on, and what it has done to the outside:
  \<open>emitted\<close> are the \<^verbatim>\<open>socket.emit\<close> calls, \<open>conn_sent\<close> the \<^verbatim>\<open>conn.send\<close> calls with
  the peer of the connection, \<open>notified\<close> the calls of registered callbacks, \<open>feed\<close>
  the messages the input box handed to \<^verbatim>\<open>onMessageSent\<close>, oldest first.

  \<open>connections\<close> is the object \<^verbatim>\<open>this.connections\<close>, keyed by peer id, with
  \<^verbatim>\<open>conn.open\<close> for each connection, in the order the keys were added (peer ids
  are uuids, which an object lists in that order). \<open>peer\<close> is the id the \<^verbatim>\<open>Peer\<close> object was made
  with, \<open>listening\<close> says that \<^verbatim>\<open>setupPeerEventListeners\<close> has run, \<open>socket\<close> holds
  the query (\<open>peerId\<close>, \<open>roomId\<close>) the Socket.IO client was made with. Callbacks are
  named by numbers.
\<close>

datatype socket_event =
    JoinRoomEvent "string option" "string option"
  | ChatMessageEvent message_data

record world =
  peerId :: "string option"
  peer :: "string option"
  listening :: bool
  connections :: "(string \<times> bool) list"
  roomId :: "string option"
  videoId :: "string option"
  socket :: "(string option \<times> string option) option"
  messageCallbacks :: "nat list"
  useWebSocketFallback :: bool
  store :: database
  chrome_local :: chrome_storage
  emitted :: "socket_event list"
  conn_sent :: "(string \<times> message_data) list"
  notified :: "(nat \<times> message_data) list"
  feed :: "message_data list"

definition new_world :: world where
  "new_world =
     \<lparr>peerId = None, peer = None, listening = False, connections = [], roomId = None,
      videoId = None, socket = None, messageCallbacks = [], useWebSocketFallback = False,
      store = empty_db,
      chrome_local = \<lparr>st_userId = None, st_peerId = None, st_nickname = None\<rparr>,
      emitted = [], conn_sent = [], notified = [], feed = []\<rparr>"

datatype peer_outcome = PeerOpen | PeerFailed

datatype init_result =
    InitSuccess "string option" "string option" bool
  | InitFailure error

datatype send_result = SendSuccess | SendFailure error

datatype join_result =
    JoinSuccess string "stored_message list"
  | JoinFailure error

text \<open>
  \<^verbatim>\<open>initializeWebSocketFallback()\<close>: \<open>io_ok\<close> is False when \<^verbatim>\<open>io(...)\<close> throws. The
  result carries \<^verbatim>\<open>usingFallback: true\<close>.
\<close>

definition initializeWebSocketFallback :: "bool \<Rightarrow> world \<Rightarrow> init_result \<times> world" where
  "initializeWebSocketFallback io_ok w =
     (if io_ok then
        (InitSuccess (peerId w) (roomId w) True, w\<lparr>socket := Some (peerId w, roomId w)\<rparr>)
      else (InitFailure SocketError, w))"

text \<open>
  \<^verbatim>\<open>initialize(videoId)\<close>. \<open>uuid_peer\<close> and \<open>uuid_room\<close> are the values of the two
  \<^verbatim>\<open>uuidv4()\<close> calls (the first is made only when no peer id is stored); \<open>outcome\<close>
  says how the promise of \<^verbatim>\<open>initializePeerJS\<close> settles: the \<^verbatim>\<open>open\<close> event of the
  peer, or its \<^verbatim>\<open>error\<close> event, which lands in the \<^verbatim>\<open>catch\<close> block.
\<close>

definition initialize ::
  "string \<Rightarrow> string \<Rightarrow> string \<Rightarrow> peer_outcome \<Rightarrow> bool \<Rightarrow> world \<Rightarrow> init_result \<times> world" where
  "initialize vid uuid_peer uuid_room outcome io_ok w =
     (let stored = st_peerId (chrome_local w);
          pid = (case stored of None \<Rightarrow> uuid_peer
                 | Some s \<Rightarrow> if s \<noteq> [] then s else uuid_peer);
          w1 = w\<lparr>videoId := Some vid,
                 peerId := Some pid,
                 chrome_local := (if \<not> truthy stored
                                  then (chrome_local w)\<lparr>st_peerId := Some pid\<rparr>
                                  else chrome_local w),
                 roomId := Some (''yt-'' @ vid @ ''-'' @ take 8 uuid_room),
                 peer := Some pid\<rparr>
      in case outcome of
           PeerOpen \<Rightarrow>
             (InitSuccess (peerId w1) (roomId w1) False, w1\<lparr>listening := True\<rparr>)
         | PeerFailed \<Rightarrow>
             if \<not> useWebSocketFallback w1
             then initializeWebSocketFallback io_ok (w1\<lparr>useWebSocketFallback := True\<rparr>)
             else (InitFailure PeerJSError, w1))"

text \<open>
  \<^verbatim>\<open>sendMessage(messageData)\<close> of the service. The result of \<open>saveMessage\<close> is not
  looked at. On the fallback the message goes to \<^verbatim>\<open>socket.emit('chat-message', ...)\<close>,
  with \<^verbatim>\<open>this.roomId\<close> for a message that has no room id of its own (a missing socket
  is a \<^verbatim>\<open>TypeError\<close>, caught); otherwise it goes to every connection whose \<open>open\<close> flag
  is set. Both ways return \<^verbatim>\<open>{ success: true }\<close>.
\<close>

definition open_peers :: "(string \<times> bool) list \<Rightarrow> string list" where
  "open_peers conns = map fst (filter snd conns)"

definition sendMessage ::
  "(string \<Rightarrow> string) \<Rightarrow> int \<Rightarrow> message_data \<Rightarrow> world \<Rightarrow> send_result \<times> world" where
  "sendMessage sanitize now messageData w =
     (let w1 = w\<lparr>store := snd (saveMessage sanitize now messageData (store w))\<rparr>
      in if useWebSocketFallback w1 then
           (case socket w1 of
              None \<Rightarrow> (SendFailure TypeError, w1)
            | Some s \<Rightarrow>
                (SendSuccess,
                 w1\<lparr>emitted := emitted w1 @
                       [ChatMessageEvent
                          (messageData\<lparr>md_roomId :=
                             (case md_roomId messageData of None \<Rightarrow> roomId w1
                              | Some r \<Rightarrow> Some r)\<rparr>)]\<rparr>))
         else
           (SendSuccess,
            w1\<lparr>conn_sent := conn_sent w1 @
                  map (\<lambda>p. (p, messageData)) (open_peers (connections w1))\<rparr>))"

text \<open>\<^verbatim>\<open>joinRoom(roomId)\<close>; \<open>getMessagesForRoom\<close> is called with its default limit of 50.\<close>

definition joinRoom :: "string \<Rightarrow> world \<Rightarrow> join_result \<times> world" where
  "joinRoom r w =
     (let w1 = w\<lparr>roomId := Some r\<rparr>
      in if useWebSocketFallback w1 then
           (case socket w1 of
              None \<Rightarrow> (JoinFailure TypeError, w1)
            | Some s \<Rightarrow>
                (JoinSuccess r (getMessagesForRoom r 50 (store w1)),
                 w1\<lparr>emitted := emitted w1 @ [JoinRoomEvent (Some r) (peerId w1)]\<rparr>))
         else (JoinSuccess r (getMessagesForRoom r 50 (store w1)), w1))"

text \<open>
  \<^verbatim>\<open>handleIncomingMessage(data)\<close>: the message is saved and every registered callback
  is called with \<open>data\<close>, in the order of registration.
\<close>

definition handleIncomingMessage ::
  "(string \<Rightarrow> string) \<Rightarrow> int \<Rightarrow> message_data \<Rightarrow> world \<Rightarrow> world" where
  "handleIncomingMessage sanitize now data w =
     w\<lparr>store := snd (saveMessage sanitize now data (store w)),
       notified := notified w @ map (\<lambda>callback. (callback, data)) (messageCallbacks w)\<rparr>"

definition onMessage :: "nat \<Rightarrow> world \<Rightarrow> world" where
  "onMessage callback w = w\<lparr>messageCallbacks := messageCallbacks w @ [callback]\<rparr>"

text \<open>
  \<^verbatim>\<open>cleanup()\<close> destroys the peer and disconnects the socket (both objects stay in
  their fields) and empties \<open>connections\<close>.
\<close>

definition cleanup :: "world \<Rightarrow> world" where
  "cleanup w = w\<lparr>connections := []\<rparr>"

text \<open>
  \<^verbatim>\<open>handleConnection(conn)\<close> files the connection under its peer; its \<^verbatim>\<open>open\<close> event
  sets the flag, its \<^verbatim>\<open>close\<close> and \<^verbatim>\<open>error\<close> events delete the entry of that peer.
  \<^verbatim>\<open>connectToPeer\<close> keeps an existing connection; without a \<^verbatim>\<open>Peer\<close> object the call
  throws and changes nothing.
\<close>

definition handleConnection :: "string \<Rightarrow> world \<Rightarrow> world" where
  "handleConnection p w = w\<lparr>connections := AList.update p False (connections w)\<rparr>"

definition conn_open :: "string \<Rightarrow> world \<Rightarrow> world" where
  "conn_open p w = w\<lparr>connections := AList.map_entry p (\<lambda>_. True) (connections w)\<rparr>"

definition conn_close :: "string \<Rightarrow> world \<Rightarrow> world" where
  "conn_close p w = w\<lparr>connections := AList.delete p (connections w)\<rparr>"

definition connectToPeer :: "string \<Rightarrow> world \<Rightarrow> world" where
  "connectToPeer remotePeerId w =
     (if remotePeerId \<in> fst ` set (connections w) then w
      else case peer w of None \<Rightarrow> w | Some _ \<Rightarrow> handleConnection remotePeerId w)"

text \<open>The \<^verbatim>\<open>connect\<close> event of the socket announces the room.\<close>

definition socket_connect :: "world \<Rightarrow> world" where
  "socket_connect w =
     (case socket w of None \<Rightarrow> w
      | Some s \<Rightarrow> w\<lparr>emitted := emitted w @ [JoinRoomEvent (roomId w) (peerId w)]\<rparr>)"

text \<open>
  \<^verbatim>\<open>sendMessage\<close> of the React \<^verbatim>\<open>InputBox\<close>. It returns on a text that is empty after
  \<open>trim\<close>; otherwise the message carries the text as typed. On success the message is
  handed to \<^verbatim>\<open>onMessageSent\<close> and the input is cleared. The function yields the new
  content of the input and the new state.
\<close>

definition InputBox_sendMessage ::
  "(string \<Rightarrow> string) \<Rightarrow> int \<Rightarrow> string \<Rightarrow> string option \<Rightarrow> string \<Rightarrow> world \<Rightarrow> string \<times> world" where
  "InputBox_sendMessage sanitize now nickname room messageText w =
     (if trim messageText = [] then (messageText, w)
      else
        (let messageData =
               \<lparr>md_userId = (case st_userId (chrome_local w) of None \<Rightarrow> [] | Some u \<Rightarrow> u),
                md_nickname = nickname,
                md_roomId = room,
                md_text = messageText,
                md_timestamp = now\<rparr>;
             result = sendMessage sanitize now messageData w
         in case fst result of
              SendSuccess \<Rightarrow> ([], (snd result)\<lparr>feed := feed (snd result) @ [messageData]\<rparr>)
            | SendFailure e \<Rightarrow> (messageText, snd result)))"

text \<open>
  Everything that can happen to a session: the calls of the public methods, the
  events of the two transports and a press of the send button of the input box
  (\<open>InputSend\<close>: the time, the nickname and room of the box, the text typed).
  \<open>run\<close> performs a sequence of them.
\<close>

datatype op =
    Initialize string string string peer_outcome bool
  | SendMessage int message_data
  | JoinRoom string
  | IncomingMessage int message_data
  | OnMessage nat
  | Cleanup
  | ConnectToPeer string
  | PeerConnection string
  | ConnOpen string
  | ConnClose string
  | SocketConnect
  | InputSend int string "string option" string

fun step :: "(string \<Rightarrow> string) \<Rightarrow> world \<Rightarrow> op \<Rightarrow> world" where
  "step sanitize w (Initialize vid u1 u2 outcome io_ok) = snd (initialize vid u1 u2 outcome io_ok w)"
| "step sanitize w (SendMessage now m) = snd (sendMessage sanitize now m w)"
| "step sanitize w (JoinRoom r) = snd (joinRoom r w)"
| "step sanitize w (IncomingMessage now m) = handleIncomingMessage sanitize now m w"
| "step sanitize w (OnMessage callback) = onMessage callback w"
| "step sanitize w Cleanup = cleanup w"
| "step sanitize w (ConnectToPeer p) = connectToPeer p w"
| "step sanitize w (PeerConnection p) = (if listening w then handleConnection p w else w)"
| "step sanitize w (ConnOpen p) = conn_open p w"
| "step sanitize w (ConnClose p) = conn_close p w"
| "step sanitize w SocketConnect = socket_connect w"
| "step sanitize w (InputSend now nickname room messageText) =
     snd (InputBox_sendMessage sanitize now nickname room messageText w)"

definition run :: "(string \<Rightarrow> string) \<Rightarrow> world \<Rightarrow> op list \<Rightarrow> world" where
  "run sanitize w ops = foldl (step sanitize) w ops"

section \<open>The content script\<close>

text \<open>
  \<^verbatim>\<open>sendMessage\<close> of the content script, on a page with an input element, the
  messages area and the messages passed to \<^verbatim>\<open>chrome.runtime.sendMessage\<close>.
  \<open>response_ok\<close> says whether the background worker answered with success.
\<close>

datatype page_element =
    OwnMessage message_data
  | PeerMessage message_data
  | ErrorElement string

record page =
  inputValue :: string
  messagesArea :: "page_element list"
  runtime_sent :: "message_data list"

definition content_sendMessage :: "int \<Rightarrow> chrome_storage \<Rightarrow> bool \<Rightarrow> page \<Rightarrow> page" where
  "content_sendMessage now st response_ok pg =
     (let messageText = trim (inputValue pg)
      in if messageText = [] then pg
         else
           (let messageData =
                  \<lparr>md_userId = (case st_userId st of None \<Rightarrow> [] | Some u \<Rightarrow> u),
                   md_nickname = (case st_nickname st of None \<Rightarrow> ''Anonymous''
                                  | Some n \<Rightarrow> if n = [] then ''Anonymous'' else n),
                   md_roomId = None,
                   md_text = messageText,
                   md_timestamp = now\<rparr>;
                pg1 = pg\<lparr>runtime_sent := runtime_sent pg @ [messageData]\<rparr>
            in if response_ok
               then pg1\<lparr>messagesArea := messagesArea pg1 @ [OwnMessage messageData],
                        inputValue := []\<rparr>
               else pg1\<lparr>messagesArea := messagesArea pg1 @
                          [ErrorElement ''Failed to send message. Please try again.'']\<rparr>))"

section \<open>Example data\<close>

text \<open>
  \<open>DOMPurify.sanitize\<close>, the Bitap search and the Fuse score are parameters of the
  model. To run it on examples, \<open>strip_tags\<close> is a sanitizer that removes every tag
  (\<open>inside\<close> says that a tag is open), \<open>infix_bitap\<close> is a matcher that accepts a text
  in which the chunk occurs, and \<open>flat_score\<close> gives every document the same score.
\<close>

fun strip_from :: "bool \<Rightarrow> string \<Rightarrow> string" where
  "strip_from inside [] = []"
| "strip_from inside (c # cs) =
     (if c = CHR ''<'' then strip_from True cs
      else if inside then strip_from (c \<noteq> CHR ''>'') cs
      else c # strip_from False cs)"

definition strip_tags :: "string \<Rightarrow> string" where
  "strip_tags s = strip_from False s"

definition infix_bitap :: "string \<Rightarrow> string \<Rightarrow> nat \<Rightarrow> bool" where
  "infix_bitap txt chunk startIndex =
     list_ex (\<lambda>k. take (length chunk) (drop k txt) = chunk) [0 ..< Suc (length txt)]"

definition flat_score :: "string \<Rightarrow> stored_message \<Rightarrow> nat" where
  "flat_score query m = 0"

definition msg :: "string \<Rightarrow> string \<Rightarrow> string \<Rightarrow> int \<Rightarrow> message_data" where
  "msg user room txt t =
     \<lparr>md_userId = user, md_nickname = user, md_roomId = Some room, md_text = txt,
      md_timestamp = t\<rparr>"

text \<open>
  The store of the search example: two messages of room \<open>R\<close> and one of room
  \<open>S\<close>.
\<close>

definition hello_db :: database where
  "hello_db = store (run strip_tags new_world
      [IncomingMessage 9 (msg ''a'' ''R'' ''hello there'' 2),
       IncomingMessage 9 (msg ''c'' ''S'' ''hello'' 3),
       IncomingMessage 9 (msg ''b'' ''R'' ''Hello world'' 1)])"

section \<open>Unfolding the model\<close>

text \<open>The definitions of the session and of the example data, for the simplifier.\<close>

lemmas session_defs =
  initialize_def initializeWebSocketFallback_def sendMessage_def joinRoom_def
  handleIncomingMessage_def onMessage_def cleanup_def handleConnection_def conn_open_def
  conn_close_def connectToPeer_def socket_connect_def InputBox_sendMessage_def

lemmas example_defs = run_def new_world_def empty_db_def msg_def saveMessage_def open_peers_def

section \<open>Properties of the storage service\<close>

subsection \<open>Reading a room\<close>

lemma where_roomId_equals:
  "messages_where_equals ''roomId'' r db =
     (if available db then Inr (rows_of_room r db) else Inl StoreError)"
  by (simp add: messages_where_equals_def messages_schema_def)

lemma getMessagesForRoom_eq:
  "getMessagesForRoom r n db =
     (if available db then rev (take n (rev (rows_of_room r db))) else [])"
  by (simp add: getMessagesForRoom_def where_roomId_equals)

lemma searchMessages_eq:
  "searchMessages bitap score r query db =
     (if available db
      then sort_key sm_timestamp (fuse_search bitap score query (rows_of_room r db))
      else [])"
  by (simp add: searchMessages_def where_roomId_equals)

lemma take_last_rows: "rev (take n (rev xs)) = drop (length xs - n) xs"
  by (simp add: take_rev)

lemma getMessagesForRoom_latest_rows:
  "available db \<Longrightarrow>
   getMessagesForRoom r n db =
     drop (length (rows_of_room r db) - n) (rows_of_room r db)"
  by (simp add: getMessagesForRoom_eq take_last_rows)

lemma sorted_filter_map:
  "sorted (map f xs) \<Longrightarrow> sorted (map f (filter P xs))"
  by (induction xs) auto

lemma getMessagesForRoom_sorted_when_stored_in_order:
  assumes "sorted (map sm_timestamp (messages db))"
  shows "sorted (map sm_timestamp (getMessagesForRoom r n db))"
proof (cases "available db")
  case True
  have "sorted (map sm_timestamp (rows_of_room r db))"
    using assms by (simp add: rows_of_room_def sorted_filter_map)
  then have "sorted (drop (length (rows_of_room r db) - n)
                       (map sm_timestamp (rows_of_room r db)))"
    by (rule sorted_wrt_drop)
  then show ?thesis
    using True by (simp add: getMessagesForRoom_latest_rows drop_map)
next
  case False
  then show ?thesis by (simp add: getMessagesForRoom_eq)
qed

text \<open>
  Five messages of a room stored in the order of their timestamps, read with a limit
  of 3.
\<close>

lemma getMessagesForRoom_example:
  "map sm_timestamp
     (getMessagesForRoom ''R'' 3
        (store (run strip_tags new_world
                  [IncomingMessage 9 (msg ''a'' ''R'' ''one'' 1),
                   IncomingMessage 9 (msg ''b'' ''R'' ''two'' 2),
                   SendMessage 3 (msg ''me'' ''R'' ''three'' 3),
                   IncomingMessage 9 (msg ''a'' ''S'' ''other'' 7),
                   IncomingMessage 9 (msg ''a'' ''R'' ''four'' 4),
                   SendMessage 5 (msg ''me'' ''R'' ''five'' 5)]))) = [3, 4, 5]"
  by (simp add: session_defs example_defs getMessagesForRoom_eq rows_of_room_def)

text \<open>
  Claim C1. \<open>getMessagesForRoom roomId N\<close> is claimed to return the \<open>N\<close> most recent
  messages of the room in ascending order of timestamp. The query walks the \<open>roomId\<close>
  index, so it returns the \<open>N\<close> rows stored last, in the order they were stored
  (\<open>getMessagesForRoom_latest_rows\<close>); that is the order of the timestamps only when
  the rows were stored in that order
  (\<open>getMessagesForRoom_sorted_when_stored_in_order\<close>). A message sent here at time 5
  and a message of a peer stamped 1 that arrives afterwards are returned as 5, 1, and a
  limit of one keeps the message stamped 1, not the most recent one.
\<close>

theorem getMessagesForRoom_follows_insertion_order:
  "map sm_timestamp
     (getMessagesForRoom ''R'' 2
        (store (run strip_tags new_world
                  [SendMessage 5 (msg ''me'' ''R'' ''first'' 5),
                   IncomingMessage 6 (msg ''peer'' ''R'' ''older'' 1)]))) = [5, 1]
   \<and> map sm_timestamp
     (getMessagesForRoom ''R'' 1
        (store (run strip_tags new_world
                  [SendMessage 5 (msg ''me'' ''R'' ''first'' 5),
                   IncomingMessage 6 (msg ''peer'' ''R'' ''older'' 1)]))) = [1]"
  by (simp add: run_def new_world_def empty_db_def msg_def sendMessage_def saveMessage_def
      handleIncomingMessage_def getMessagesForRoom_eq rows_of_room_def open_peers_def)

subsection \<open>Searching a room\<close>

lemma searchIn_empty_pattern: "searchIn bitap [] t = (t = [])"
  by (auto simp: searchIn_def toLowerCase_def bitap_chunks_def)

lemma isBlank_Nil: "isBlank []"
  by (simp add: isBlank_def trim_def)

lemma fuse_matches_empty_pattern: "\<not> fuse_matches bitap [] m"
  using isBlank_Nil by (auto simp: fuse_matches_def searchIn_empty_pattern)

lemma fuse_search_empty_pattern: "fuse_search bitap score [] docs = []"
  by (simp add: fuse_search_def fuse_matches_empty_pattern)

lemma set_fuse_search:
  "set (fuse_search bitap score query docs) = {m \<in> set docs. fuse_matches bitap query m}"
  by (simp add: fuse_search_def)

lemma set_searchMessages:
  "set (searchMessages bitap score rid query db) =
     (if available db
      then {m \<in> set (messages db). sm_roomId m = Some rid \<and> fuse_matches bitap query m}
      else {})"
  by (auto simp: searchMessages_eq set_fuse_search rows_of_room_def)

lemma sorted_searchMessages:
  "sorted (map sm_timestamp (searchMessages bitap score rid query db))"
  by (simp add: searchMessages_eq)

text \<open>
  Claim C2. For every room and query, whatever the Bitap search and the scores are:
  the messages \<open>searchMessages\<close> returns are the stored messages of that room whose
  text or nickname matches the query, they are in ascending order of timestamp, and
  the empty query returns no message.
\<close>

theorem searchMessages_scoped_and_ordered:
  "set (searchMessages bitap score rid query db) =
     (if available db
      then {m \<in> set (messages db). sm_roomId m = Some rid \<and> fuse_matches bitap query m}
      else {})
   \<and> sorted (map sm_timestamp (searchMessages bitap score rid query db))
   \<and> searchMessages bitap score rid [] db = []"
  using set_searchMessages [of bitap score rid query db]
    sorted_searchMessages [of bitap score rid query db]
  by (simp add: searchMessages_eq fuse_search_empty_pattern)

theorem searchMessages_scoped_and_ordered_witness:
  "map sm_text (searchMessages infix_bitap flat_score ''R'' ''hello'' hello_db)
     = [''Hello world'', ''hello there'']
   \<and> sorted (map sm_timestamp (searchMessages infix_bitap flat_score ''R'' ''hello'' hello_db))
   \<and> searchMessages infix_bitap flat_score ''R'' [] hello_db = []"
proof -
  have ev: "map sm_text (searchMessages infix_bitap flat_score ''R'' ''hello'' hello_db)
     = [''Hello world'', ''hello there'']"
    by code_simp
  show ?thesis
    using searchMessages_scoped_and_ordered [of infix_bitap flat_score "''R''" "''hello''" hello_db]
      ev
    by simp
qed

subsection \<open>Listing the rooms\<close>

lemma getRooms_Nil: "getRooms db = []"
  by (simp add: getRooms_def rooms_orderBy_def rooms_schema_def)

text \<open>
  Claim C9. \<open>getRooms\<close> is claimed to return the stored rooms by last activity,
  newest first. It orders by \<open>lastActive\<close>, which is not an indexed key path of the
  table \<open>rooms\<close> (\<open>rooms_schema\<close>), so the query is rejected and the \<^verbatim>\<open>catch\<close> block
  returns \<open>[]\<close>: with one room stored, \<open>getRooms\<close> returns no room.
\<close>

theorem getRooms_returns_nothing:
  "rooms (snd (saveRoom 100
      \<lparr>room_id = ''yt-abc-12345678'', room_name = ''Room'', room_videoId = ''abc'',
       room_createdAt = 90, room_lastActive = 0\<rparr> empty_db))
     = [\<lparr>room_id = ''yt-abc-12345678'', room_name = ''Room'', room_videoId = ''abc'',
         room_createdAt = 90, room_lastActive = 100\<rparr>]
   \<and> getRooms (snd (saveRoom 100
      \<lparr>room_id = ''yt-abc-12345678'', room_name = ''Room'', room_videoId = ''abc'',
       room_createdAt = 90, room_lastActive = 0\<rparr> empty_db)) = []"
  by (simp add: saveRoom_def empty_db_def getRooms_def rooms_orderBy_def rooms_schema_def)

section \<open>Properties of the input boxes\<close>

lemma trim_blank: "(\<forall>c\<in>set s. isWhiteSpace c) \<Longrightarrow> trim s = []"
proof -
  assume "\<forall>c\<in>set s. isWhiteSpace c"
  then have h: "dropWhile isWhiteSpace s = []"
    by simp
  show ?thesis unfolding trim_def h by simp
qed

lemma trim_Nil_iff: "trim s = [] \<longleftrightarrow> (\<forall>c\<in>set s. isWhiteSpace c)"
proof
  assume t: "trim s = []"
  have "dropWhile isWhiteSpace s = []"
  proof (rule ccontr)
    assume ne: "dropWhile isWhiteSpace s \<noteq> []"
    then have "\<not> isWhiteSpace (hd (dropWhile isWhiteSpace s))"
      by (rule hd_dropWhile)
    moreover have "hd (dropWhile isWhiteSpace s) \<in> set (dropWhile isWhiteSpace s)"
      using ne by simp
    moreover have "\<forall>c\<in>set (dropWhile isWhiteSpace s). isWhiteSpace c"
      using t by (simp add: trim_def)
    ultimately show False by blast
  qed
  then show "\<forall>c\<in>set s. isWhiteSpace c"
    by simp
next
  assume "\<forall>c\<in>set s. isWhiteSpace c"
  then show "trim s = []" by (rule trim_blank)
qed

text \<open>
  Claim C6. A text that is empty or consists of white space only is rejected with no
  side effect: \<open>sendMessage\<close> of the input box returns the state it was given
  (nothing stored, nothing sent on a transport, nothing appended to the feed) and
  leaves the input as it is, and \<open>sendMessage\<close> of the content script leaves the page
  unchanged (nothing passed to the background worker, nothing displayed).
\<close>

theorem blank_text_is_not_sent:
  assumes "\<forall>c\<in>set messageText. isWhiteSpace c"
  shows "InputBox_sendMessage sanitize now nickname room messageText w = (messageText, w)
         \<and> content_sendMessage now st response_ok (pg\<lparr>inputValue := messageText\<rparr>)
             = pg\<lparr>inputValue := messageText\<rparr>"
  using assms by (simp add: InputBox_sendMessage_def content_sendMessage_def trim_blank)

theorem blank_text_is_not_sent_witness:
  "InputBox_sendMessage strip_tags 7 ''Ann'' (Some ''R'') [CHR 0x20, CHR 0x09, CHR 0x0A] new_world
     = ([CHR 0x20, CHR 0x09, CHR 0x0A], new_world)
   \<and> content_sendMessage 7 \<lparr>st_userId = Some ''u'', st_peerId = None, st_nickname = None\<rparr> True
       \<lparr>inputValue = [CHR 0x20, CHR 0x09, CHR 0x0A], messagesArea = [], runtime_sent = []\<rparr>
     = \<lparr>inputValue = [CHR 0x20, CHR 0x09, CHR 0x0A], messagesArea = [], runtime_sent = []\<rparr>"
  using blank_text_is_not_sent [of "[CHR 0x20, CHR 0x09, CHR 0x0A]" strip_tags 7 "''Ann''" "Some ''R''" new_world
      "\<lparr>st_userId = Some ''u'', st_peerId = None, st_nickname = None\<rparr>" True
      "\<lparr>inputValue = [], messagesArea = [], runtime_sent = []\<rparr>"]
  by (simp add: isWhiteSpace_def)

section \<open>Properties of the session\<close>

subsection \<open>What reaches the store and the subscribers\<close>

lemma sendMessage_store:
  "store (snd (sendMessage sanitize now m w)) = snd (saveMessage sanitize now m (store w))"
  by (simp add: sendMessage_def Let_def split: option.splits)

lemma InputBox_sendMessage_store:
  "store (snd (InputBox_sendMessage sanitize now nickname r t w)) =
     (if trim t = [] then store w
      else snd (saveMessage sanitize now
                  \<lparr>md_userId = (case st_userId (chrome_local w) of None \<Rightarrow> [] | Some u \<Rightarrow> u),
                   md_nickname = nickname, md_roomId = r, md_text = t, md_timestamp = now\<rparr>
                  (store w)))"
  by (simp add: InputBox_sendMessage_def Let_def sendMessage_store split: send_result.splits)

lemma step_store:
  "store (step sanitize w x) = store w
   \<or> (\<exists>now m. store (step sanitize w x) = snd (saveMessage sanitize now m (store w)))"
proof (cases x)
  case (SendMessage now m)
  then show ?thesis using sendMessage_store by auto
next
  case (InputSend now nickname r t)
  then show ?thesis
    using InputBox_sendMessage_store [of sanitize now nickname r t w]
    by (cases "trim t = []") auto
next
  case (IncomingMessage now m)
  then show ?thesis by (auto simp: handleIncomingMessage_def)
qed (auto simp: session_defs Let_def split: option.splits peer_outcome.splits)

lemma saveMessage_sanitized:
  assumes "\<forall>m\<in>set (messages db). sm_text m \<in> range sanitize"
  shows "\<forall>m\<in>set (messages (snd (saveMessage sanitize now d db))). sm_text m \<in> range sanitize"
  using assms by (auto simp: saveMessage_def)

lemma step_sanitized:
  assumes "\<forall>m\<in>set (messages (store w)). sm_text m \<in> range sanitize"
  shows "\<forall>m\<in>set (messages (store (step sanitize w x))). sm_text m \<in> range sanitize"
  using step_store [of sanitize w x] saveMessage_sanitized [OF assms] assms by metis

lemma run_sanitized:
  assumes "\<forall>m\<in>set (messages (store w)). sm_text m \<in> range sanitize"
  shows "\<forall>m\<in>set (messages (store (run sanitize w ops))). sm_text m \<in> range sanitize"
  using assms unfolding run_def
proof (induction ops arbitrary: w)
  case Nil
  then show ?case by simp
next
  case (Cons x xs)
  from Cons.prems have "\<forall>m\<in>set (messages (store (step sanitize w x))). sm_text m \<in> range sanitize"
    by (rule step_sanitized)
  then show ?case using Cons.IH by simp
qed

lemma InputBox_sendMessage_feed:
  "feed (snd (InputBox_sendMessage sanitize now nickname r t w)) = feed w
   \<or> map md_text (feed (snd (InputBox_sendMessage sanitize now nickname r t w)))
       = map md_text (feed w) @ [t]"
  by (auto simp: InputBox_sendMessage_def sendMessage_def Let_def
      split: send_result.splits option.splits)

text \<open>
  Claim C3. Delivering the same message twice is claimed to leave one stored record
  and one notification per subscriber. \<open>handleIncomingMessage\<close> compares nothing:
  with one subscriber, two deliveries of one message leave two records and two
  notifications.
\<close>

theorem same_message_twice_is_stored_twice:
  "map sm_text (messages (store (run strip_tags new_world
      [OnMessage 0, IncomingMessage 9 (msg ''a'' ''R'' ''hi'' 2),
       IncomingMessage 9 (msg ''a'' ''R'' ''hi'' 2)]))) = [''hi'', ''hi'']
   \<and> notified (run strip_tags new_world
      [OnMessage 0, IncomingMessage 9 (msg ''a'' ''R'' ''hi'' 2),
       IncomingMessage 9 (msg ''a'' ''R'' ''hi'' 2)])
     = [(0, msg ''a'' ''R'' ''hi'' 2), (0, msg ''a'' ''R'' ''hi'' 2)]"
  by (simp add: session_defs example_defs strip_tags_def)

text \<open>
  Claim C3, as the code has it. Every delivery is stored (when the database accepts
  the write) and forwarded once to each registered callback, so two deliveries of the
  same message add two records and notify each callback twice.
\<close>

theorem every_delivery_is_stored_and_forwarded:
  assumes "available (store w)"
  shows "length (messages (store (handleIncomingMessage sanitize now d w)))
           = length (messages (store w)) + 1
    \<and> notified (handleIncomingMessage sanitize now d w)
        = notified w @ map (\<lambda>callback. (callback, d)) (messageCallbacks w)
    \<and> length (messages (store (handleIncomingMessage sanitize now' d
                                 (handleIncomingMessage sanitize now d w))))
           = length (messages (store w)) + 2
    \<and> notified (handleIncomingMessage sanitize now' d (handleIncomingMessage sanitize now d w))
        = notified w @ map (\<lambda>callback. (callback, d)) (messageCallbacks w)
                     @ map (\<lambda>callback. (callback, d)) (messageCallbacks w)"
  using assms by (simp add: handleIncomingMessage_def saveMessage_def)

theorem every_delivery_is_stored_and_forwarded_witness:
  "length (messages (store (handleIncomingMessage strip_tags 9 (msg ''a'' ''R'' ''hi'' 2)
       (handleIncomingMessage strip_tags 8 (msg ''a'' ''R'' ''hi'' 2) (onMessage 0 new_world))))) = 2
   \<and> notified (handleIncomingMessage strip_tags 9 (msg ''a'' ''R'' ''hi'' 2)
       (handleIncomingMessage strip_tags 8 (msg ''a'' ''R'' ''hi'' 2) (onMessage 0 new_world)))
      = [(0, msg ''a'' ''R'' ''hi'' 2), (0, msg ''a'' ''R'' ''hi'' 2)]"
  using every_delivery_is_stored_and_forwarded [of "onMessage 0 new_world" strip_tags 8
      "msg ''a'' ''R'' ''hi'' 2" 9]
  by (simp add: onMessage_def new_world_def empty_db_def)

text \<open>
  Claim C4. The text is claimed to be sanitized before it is stored or displayed. It
  is sanitized on the way into the store only: the subscribers are called with the
  message as it arrived, and the input box hands the message as typed to the feed.
  With a sanitizer that turns \<open>hi<script src=x.js></script>\<close> into \<open>hi\<close>, both
  are given the text with the tag.
\<close>

theorem displayed_text_is_not_sanitized:
  "notified (run strip_tags new_world
       [OnMessage 0, IncomingMessage 9 (msg ''a'' ''R'' ''hi<script src=x.js></script>'' 2)])
     = [(0, msg ''a'' ''R'' ''hi<script src=x.js></script>'' 2)]
   \<and> map md_text (feed (run strip_tags new_world
       [InputSend 7 ''Ann'' (Some ''R'') ''hi<script src=x.js></script>'']))
     = [''hi<script src=x.js></script>'']
   \<and> strip_tags ''hi<script src=x.js></script>'' = ''hi''"
  by (simp add: session_defs example_defs strip_tags_def trim_def isWhiteSpace_def)

text \<open>
  Claim C4, as the code has it. Whatever the session does (messages sent by the
  service or the input box, messages received, any other call or event), every record
  of the store holds a text that came out of the sanitizer, if that was so before;
  the text handed to the subscribers and to the feed is the text as received or typed.
\<close>

theorem stored_text_is_sanitized:
  assumes "\<forall>m\<in>set (messages (store w)). sm_text m \<in> range sanitize"
  shows "(\<forall>m\<in>set (messages (store (run sanitize w ops))). sm_text m \<in> range sanitize)
    \<and> notified (handleIncomingMessage sanitize now d w)
        = notified w @ map (\<lambda>callback. (callback, d)) (messageCallbacks w)
    \<and> (feed (snd (InputBox_sendMessage sanitize now nickname r t w)) = feed w
       \<or> map md_text (feed (snd (InputBox_sendMessage sanitize now nickname r t w)))
           = map md_text (feed w) @ [t])"
proof -
  have "\<forall>m\<in>set (messages (store (run sanitize w ops))). sm_text m \<in> range sanitize"
    using assms by (rule run_sanitized)
  moreover have "notified (handleIncomingMessage sanitize now d w)
        = notified w @ map (\<lambda>callback. (callback, d)) (messageCallbacks w)"
    by (simp add: handleIncomingMessage_def)
  ultimately show ?thesis
    using InputBox_sendMessage_feed [of sanitize now nickname r t w] by blast
qed

theorem stored_text_is_sanitized_witness:
  "map sm_text (messages (store (run strip_tags new_world
       [IncomingMessage 9 (msg ''a'' ''R'' ''hi<script src=x.js></script>'' 2),
        InputSend 7 ''Ann'' (Some ''R'') ''x<script src=y.js></script>''])))
     = [''hi'', ''x'']
   \<and> list_all (\<lambda>t. t \<in> range strip_tags)
       (map sm_text (messages (store (run strip_tags new_world
       [IncomingMessage 9 (msg ''a'' ''R'' ''hi<script src=x.js></script>'' 2),
        InputSend 7 ''Ann'' (Some ''R'') ''x<script src=y.js></script>'']))))"
proof -
  have ev: "map sm_text (messages (store (run strip_tags new_world
       [IncomingMessage 9 (msg ''a'' ''R'' ''hi<script src=x.js></script>'' 2),
        InputSend 7 ''Ann'' (Some ''R'') ''x<script src=y.js></script>''])))
     = [''hi'', ''x'']"
    by (simp add: session_defs example_defs strip_tags_def trim_def isWhiteSpace_def)
  have start: "\<forall>m\<in>set (messages (store new_world)). sm_text m \<in> range strip_tags"
    by (simp add: new_world_def empty_db_def)
  have "\<forall>m\<in>set (messages (store (run strip_tags new_world
       [IncomingMessage 9 (msg ''a'' ''R'' ''hi<script src=x.js></script>'' 2),
        InputSend 7 ''Ann'' (Some ''R'') ''x<script src=y.js></script>'']))).
          sm_text m \<in> range strip_tags"
    using stored_text_is_sanitized [OF start, THEN conjunct1] .
  then have "\<forall>s\<in>set (map sm_text (messages (store (run strip_tags new_world
       [IncomingMessage 9 (msg ''a'' ''R'' ''hi<script src=x.js></script>'' 2),
        InputSend 7 ''Ann'' (Some ''R'') ''x<script src=y.js></script>''])))).
          s \<in> range strip_tags"
    by simp
  then show ?thesis
    using ev by (simp only: list_all_iff simp_thms)
qed

subsection \<open>Sending without peers\<close>

text \<open>
  Claim C7. A send that reaches no peer is claimed to signal a partial delivery. The
  result of \<open>sendMessage\<close> is \<open>SendSuccess\<close> with no connection at all, the same
  value as with an open connection that received the message.
\<close>

theorem send_without_peers_looks_delivered:
  "fst (sendMessage strip_tags 5 (msg ''me'' ''R'' ''hi'' 5) new_world) = SendSuccess
   \<and> conn_sent (snd (sendMessage strip_tags 5 (msg ''me'' ''R'' ''hi'' 5) new_world)) = []
   \<and> fst (sendMessage strip_tags 5 (msg ''me'' ''R'' ''hi'' 5)
            (conn_open ''p'' (handleConnection ''p'' new_world))) = SendSuccess
   \<and> conn_sent (snd (sendMessage strip_tags 5 (msg ''me'' ''R'' ''hi'' 5)
            (conn_open ''p'' (handleConnection ''p'' new_world))))
       = [(''p'', msg ''me'' ''R'' ''hi'' 5)]"
  by (simp add: session_defs example_defs)

text \<open>
  Claim C7, as the code has it. With no open connection the send still returns
  success, whether or not the message could be stored: the message is stored when the
  database accepts the write, and a rejected write is not reported. Nothing goes out
  on a mesh connection. On the fallback the message is emitted on the socket, and the
  send fails only when there is no socket. The result is the one that any other set
  of connections gives. The function is total: the send returns.
\<close>

theorem send_without_peers_succeeds:
  assumes "open_peers (connections w) = []"
  shows "fst (sendMessage sanitize now m w) =
           (if useWebSocketFallback w \<and> socket w = None then SendFailure TypeError
            else SendSuccess)
    \<and> conn_sent (snd (sendMessage sanitize now m w)) = conn_sent w
    \<and> emitted (snd (sendMessage sanitize now m w)) =
           (if useWebSocketFallback w \<and> socket w \<noteq> None
            then emitted w @
                   [ChatMessageEvent
                      (m\<lparr>md_roomId := (case md_roomId m of None \<Rightarrow> roomId w
                                       | Some r \<Rightarrow> Some r)\<rparr>)]
            else emitted w)
    \<and> messages (store (snd (sendMessage sanitize now m w))) =
           (if available (store w)
            then messages (store w) @
                   [\<lparr>sm_id = next_id (store w),
                     sm_roomId = md_roomId m,
                     sm_userId = md_userId m,
                     sm_nickname = (if md_nickname m = [] then ''Anonymous'' else md_nickname m),
                     sm_text = sanitize (md_text m),
                     sm_timestamp = (if md_timestamp m = 0 then now else md_timestamp m)\<rparr>]
            else messages (store w))
    \<and> fst (sendMessage sanitize now m (w\<lparr>connections := cs\<rparr>))
        = fst (sendMessage sanitize now m w)"
  using assms
  by (auto simp: sendMessage_def saveMessage_def Let_def split: option.splits)

theorem send_without_peers_succeeds_witness:
  "fst (sendMessage strip_tags 5 (msg ''me'' ''R'' ''hello'' 5) new_world) = SendSuccess
   \<and> map sm_text
       (messages (store (snd (sendMessage strip_tags 5 (msg ''me'' ''R'' ''hello'' 5) new_world))))
      = [''hello'']
   \<and> fst (sendMessage strip_tags 5 (msg ''me'' ''R'' ''hello'' 5)
            (new_world\<lparr>store := empty_db\<lparr>available := False\<rparr>\<rparr>)) = SendSuccess
   \<and> messages (store (snd (sendMessage strip_tags 5 (msg ''me'' ''R'' ''hello'' 5)
            (new_world\<lparr>store := empty_db\<lparr>available := False\<rparr>\<rparr>)))) = []"
proof -
  have none: "open_peers (connections new_world) = []"
    by (simp add: new_world_def open_peers_def)
  have none': "open_peers (connections (new_world\<lparr>store := empty_db\<lparr>available := False\<rparr>\<rparr>)) = []"
    by (simp add: new_world_def open_peers_def)
  show ?thesis
    using send_without_peers_succeeds [OF none, of strip_tags 5 "msg ''me'' ''R'' ''hello'' 5"]
      send_without_peers_succeeds [OF none', of strip_tags 5 "msg ''me'' ''R'' ''hello'' 5"]
    by (simp add: new_world_def empty_db_def msg_def strip_tags_def)
qed

subsection \<open>The fallback\<close>

lemma step_on_fallback:
  assumes "useWebSocketFallback w"
  shows "useWebSocketFallback (step sanitize w x)
         \<and> socket (step sanitize w x) = socket w
         \<and> conn_sent (step sanitize w x) = conn_sent w"
  using assms
  by (cases x)
     (auto simp: session_defs Let_def split: option.splits peer_outcome.splits send_result.splits)

lemma run_on_fallback:
  assumes "useWebSocketFallback w"
  shows "useWebSocketFallback (run sanitize w ops)
         \<and> socket (run sanitize w ops) = socket w
         \<and> conn_sent (run sanitize w ops) = conn_sent w"
  using assms unfolding run_def
proof (induction ops arbitrary: w)
  case Nil
  then show ?case by simp
next
  case (Cons x xs)
  have s: "useWebSocketFallback (step sanitize w x)"
    and k: "socket (step sanitize w x) = socket w"
    and c: "conn_sent (step sanitize w x) = conn_sent w"
    using step_on_fallback [OF Cons.prems] by blast+
  show ?case
    using Cons.IH [OF s] k c by simp
qed

lemma initialize_falls_back:
  assumes "\<not> useWebSocketFallback w"
  shows "useWebSocketFallback (snd (initialize vid u1 u2 PeerFailed io_ok w))"
    and "conn_sent (snd (initialize vid u1 u2 PeerFailed io_ok w)) = conn_sent w"
    and "fst (initialize vid u1 u2 PeerFailed io_ok w) =
           (if io_ok
            then InitSuccess (peerId (snd (initialize vid u1 u2 PeerFailed io_ok w)))
                   (roomId (snd (initialize vid u1 u2 PeerFailed io_ok w))) True
            else InitFailure SocketError)"
    and "socket (snd (initialize vid u1 u2 PeerFailed io_ok w)) =
           (if io_ok
            then Some (peerId (snd (initialize vid u1 u2 PeerFailed io_ok w)),
                       roomId (snd (initialize vid u1 u2 PeerFailed io_ok w)))
            else socket w)"
  using assms
  by (simp_all add: initialize_def initializeWebSocketFallback_def Let_def)

text \<open>
  Claim C5. When the PeerJS connection fails in a session that is not on the
  fallback, \<open>initialize\<close> turns to the socket at once and answers for it
  (\<^verbatim>\<open>usingFallback: true\<close>, or the failure of the socket). From then on, whatever is
  called and whatever happens, the session stays on the fallback: the flag stays set,
  the socket is the one made then, and nothing is sent on a mesh connection.
\<close>

theorem fallback_is_chosen_once:
  assumes "\<not> useWebSocketFallback w"
  shows "fst (initialize vid u1 u2 PeerFailed io_ok w) =
           (if io_ok
            then InitSuccess (peerId (snd (initialize vid u1 u2 PeerFailed io_ok w)))
                   (roomId (snd (initialize vid u1 u2 PeerFailed io_ok w))) True
            else InitFailure SocketError)
    \<and> socket (snd (initialize vid u1 u2 PeerFailed io_ok w)) =
           (if io_ok
            then Some (peerId (snd (initialize vid u1 u2 PeerFailed io_ok w)),
                       roomId (snd (initialize vid u1 u2 PeerFailed io_ok w)))
            else socket w)
    \<and> useWebSocketFallback (run sanitize (snd (initialize vid u1 u2 PeerFailed io_ok w)) ops)
    \<and> socket (run sanitize (snd (initialize vid u1 u2 PeerFailed io_ok w)) ops)
        = socket (snd (initialize vid u1 u2 PeerFailed io_ok w))
    \<and> conn_sent (run sanitize (snd (initialize vid u1 u2 PeerFailed io_ok w)) ops)
        = conn_sent w"
  using initialize_falls_back [OF assms, of vid u1 u2 io_ok]
    run_on_fallback [of "snd (initialize vid u1 u2 PeerFailed io_ok w)" sanitize ops]
  by simp

theorem fallback_is_chosen_once_witness:
  "fst (initialize ''v'' ''aaaa'' ''rrrr'' PeerFailed True new_world)
     = InitSuccess (Some ''aaaa'') (Some ''yt-v-rrrr'') True
   \<and> useWebSocketFallback
       (run strip_tags (snd (initialize ''v'' ''aaaa'' ''rrrr'' PeerFailed True new_world))
          [Initialize ''v2'' ''bbbb'' ''ssss'' PeerOpen True, PeerConnection ''p'', ConnOpen ''p'',
           SendMessage 5 (msg ''me'' ''R'' ''hi'' 5)])
   \<and> conn_sent
       (run strip_tags (snd (initialize ''v'' ''aaaa'' ''rrrr'' PeerFailed True new_world))
          [Initialize ''v2'' ''bbbb'' ''ssss'' PeerOpen True, PeerConnection ''p'', ConnOpen ''p'',
           SendMessage 5 (msg ''me'' ''R'' ''hi'' 5)]) = []
   \<and> emitted
       (run strip_tags (snd (initialize ''v'' ''aaaa'' ''rrrr'' PeerFailed True new_world))
          [Initialize ''v2'' ''bbbb'' ''ssss'' PeerOpen True, PeerConnection ''p'', ConnOpen ''p'',
           SendMessage 5 (msg ''me'' ''R'' ''hi'' 5)]) = [ChatMessageEvent (msg ''me'' ''R'' ''hi'' 5)]"
proof -
  have fresh: "\<not> useWebSocketFallback new_world"
    by (simp add: new_world_def)
  have ev: "emitted
       (run strip_tags (snd (initialize ''v'' ''aaaa'' ''rrrr'' PeerFailed True new_world))
          [Initialize ''v2'' ''bbbb'' ''ssss'' PeerOpen True, PeerConnection ''p'', ConnOpen ''p'',
           SendMessage 5 (msg ''me'' ''R'' ''hi'' 5)]) = [ChatMessageEvent (msg ''me'' ''R'' ''hi'' 5)]"
    by (simp add: session_defs example_defs Let_def truthy_def)
  show ?thesis
    using fallback_is_chosen_once [OF fresh, of "''v''" "''aaaa''" "''rrrr''" True strip_tags
        "[Initialize ''v2'' ''bbbb'' ''ssss'' PeerOpen True, PeerConnection ''p'', ConnOpen ''p'',
           SendMessage 5 (msg ''me'' ''R'' ''hi'' 5)]"] ev
    by (simp add: initialize_def initializeWebSocketFallback_def new_world_def Let_def)
qed

subsection \<open>Identity\<close>

lemma initialize_keeps_stored_peerId:
  "truthy (st_peerId (chrome_local w)) \<Longrightarrow>
   peerId (snd (initialize vid u r outcome io_ok w)) = st_peerId (chrome_local w)
   \<and> chrome_local (snd (initialize vid u r outcome io_ok w)) = chrome_local w"
  by (auto simp: initialize_def initializeWebSocketFallback_def truthy_def Let_def
      split: option.splits peer_outcome.splits)

lemma initialize_stores_peerId:
  "u \<noteq> [] \<Longrightarrow>
   truthy (st_peerId (chrome_local (snd (initialize vid u r outcome io_ok w))))
   \<and> st_peerId (chrome_local (snd (initialize vid u r outcome io_ok w)))
       = peerId (snd (initialize vid u r outcome io_ok w))"
  by (auto simp: initialize_def initializeWebSocketFallback_def truthy_def Let_def
      split: option.splits peer_outcome.splits)

lemma step_keeps_stored_peerId:
  "truthy (st_peerId (chrome_local w)) \<Longrightarrow> chrome_local (step sanitize w x) = chrome_local w"
proof (cases x)
  case (Initialize vid u1 u2 outcome io_ok)
  assume "truthy (st_peerId (chrome_local w))"
  then show ?thesis
    using Initialize initialize_keeps_stored_peerId [of w vid u1 u2 outcome io_ok] by simp
qed (auto simp: session_defs Let_def split: option.splits send_result.splits)

lemma run_keeps_stored_peerId:
  "truthy (st_peerId (chrome_local w)) \<Longrightarrow> chrome_local (run sanitize w ops) = chrome_local w"
  unfolding run_def
  by (induction ops arbitrary: w) (simp_all add: step_keeps_stored_peerId)

lemma onInstalled_twice:
  "u1 \<noteq> [] \<Longrightarrow> onInstalled u2 (onInstalled u1 st) = onInstalled u1 st"
  by (simp add: onInstalled_def truthy_def)

lemma initialize_peerId:
  "peerId (snd (initialize vid u r outcome io_ok w)) =
     Some (case st_peerId (chrome_local w) of None \<Rightarrow> u
           | Some s \<Rightarrow> if s \<noteq> [] then s else u)"
  by (simp add: initialize_def initializeWebSocketFallback_def Let_def
      split: option.splits peer_outcome.splits)

lemma initialize_result:
  "fst (initialize vid u r outcome io_ok w) =
     (case outcome of
        PeerOpen \<Rightarrow>
          InitSuccess (peerId (snd (initialize vid u r outcome io_ok w)))
            (Some (''yt-'' @ vid @ ''-'' @ take 8 r)) False
      | PeerFailed \<Rightarrow>
          if useWebSocketFallback w then InitFailure PeerJSError
          else if io_ok
          then InitSuccess (peerId (snd (initialize vid u r outcome io_ok w)))
                 (Some (''yt-'' @ vid @ ''-'' @ take 8 r)) True
          else InitFailure SocketError)"
  by (simp add: initialize_def initializeWebSocketFallback_def Let_def
      split: option.splits peer_outcome.splits)

lemma initialize_uses_stored_peerId:
  assumes "st_peerId (chrome_local w) = Some p" and "p \<noteq> []"
  shows "peerId (snd (initialize vid u r outcome io_ok w)) = Some p"
    and "chrome_local (snd (initialize vid u r outcome io_ok w)) = chrome_local w"
  using assms
  by (simp_all add: initialize_def initializeWebSocketFallback_def truthy_def Let_def
      split: option.splits peer_outcome.splits)

text \<open>
  Claim C8. Creating the identity twice gives the same id. The install listener
  generates a user id only when none is stored, so a second run changes nothing. The
  first \<open>initialize\<close> uses the stored peer id, or generates and stores one when none
  is stored. After anything else the session did, a later \<open>initialize\<close> of any
  service whose storage is the one left behind (the same service, or a new one of the
  same installation, whatever its own fields hold) has that peer id again, leaves it
  stored, and returns it in its success result. \<open>u1\<close> is the id \<^verbatim>\<open>uuidv4()\<close>
  generates first; it is not the empty string.
\<close>

theorem identity_is_created_once:
  assumes "u1 \<noteq> []"
    and "chrome_local w' = chrome_local (run sanitize (snd (initialize v1 u1 r1 o1 i1 w)) ops)"
  shows "onInstalled u2 (onInstalled u1 st) = onInstalled u1 st
    \<and> st_userId (onInstalled u1 st) = (if truthy (st_userId st) then st_userId st else Some u1)
    \<and> peerId (snd (initialize v1 u1 r1 o1 i1 w))
        = (if truthy (st_peerId (chrome_local w)) then st_peerId (chrome_local w) else Some u1)
    \<and> st_peerId (chrome_local (snd (initialize v1 u1 r1 o1 i1 w)))
        = peerId (snd (initialize v1 u1 r1 o1 i1 w))
    \<and> peerId (snd (initialize v2 u2 r2 o2 i2 w')) = peerId (snd (initialize v1 u1 r1 o1 i1 w))
    \<and> st_peerId (chrome_local (snd (initialize v2 u2 r2 o2 i2 w')))
        = peerId (snd (initialize v1 u1 r1 o1 i1 w))
    \<and> fst (initialize v2 u2 r2 PeerOpen i2 w')
        = InitSuccess (peerId (snd (initialize v1 u1 r1 o1 i1 w)))
            (Some (''yt-'' @ v2 @ ''-'' @ take 8 r2)) False
    \<and> fst (initialize v2 u2 r2 PeerFailed i2 w')
        = (if useWebSocketFallback w' then InitFailure PeerJSError
           else if i2
           then InitSuccess (peerId (snd (initialize v1 u1 r1 o1 i1 w)))
                  (Some (''yt-'' @ v2 @ ''-'' @ take 8 r2)) True
           else InitFailure SocketError)"
proof -
  let ?w1 = "snd (initialize v1 u1 r1 o1 i1 w)"
  obtain p where p: "peerId ?w1 = Some p" and pdef:
    "p = (case st_peerId (chrome_local w) of None \<Rightarrow> u1 | Some s \<Rightarrow> if s \<noteq> [] then s else u1)"
    using initialize_peerId [of v1 u1 r1 o1 i1 w] by simp
  have pne: "p \<noteq> []"
    using assms(1) pdef by (simp split: option.splits)
  have first: "peerId ?w1
        = (if truthy (st_peerId (chrome_local w)) then st_peerId (chrome_local w) else Some u1)"
    using p pdef by (simp add: truthy_def split: option.splits)
  have s1: "truthy (st_peerId (chrome_local ?w1))"
    and e1: "st_peerId (chrome_local ?w1) = peerId ?w1"
    using assms(1) initialize_stores_peerId [of u1 v1 r1 o1 i1 w] by blast+
  have keep: "chrome_local (run sanitize ?w1 ops) = chrome_local ?w1"
    using s1 by (rule run_keeps_stored_peerId)
  have stored': "st_peerId (chrome_local w') = Some p"
    using assms(2) keep e1 p by simp
  have again: "\<And>outcome io. peerId (snd (initialize v2 u2 r2 outcome io w')) = Some p"
    and same: "chrome_local (snd (initialize v2 u2 r2 o2 i2 w')) = chrome_local w'"
    using initialize_uses_stored_peerId [OF stored' pne] by simp_all
  have res_open: "fst (initialize v2 u2 r2 PeerOpen i2 w')
        = InitSuccess (Some p) (Some (''yt-'' @ v2 @ ''-'' @ take 8 r2)) False"
    using initialize_result [of v2 u2 r2 PeerOpen i2 w'] again by simp
  have res_failed: "fst (initialize v2 u2 r2 PeerFailed i2 w')
        = (if useWebSocketFallback w' then InitFailure PeerJSError
           else if i2 then InitSuccess (Some p) (Some (''yt-'' @ v2 @ ''-'' @ take 8 r2)) True
           else InitFailure SocketError)"
    using initialize_result [of v2 u2 r2 PeerFailed i2 w'] again by simp
  have inst: "onInstalled u2 (onInstalled u1 st) = onInstalled u1 st"
    using assms(1) by (rule onInstalled_twice)
  have user: "st_userId (onInstalled u1 st)
        = (if truthy (st_userId st) then st_userId st else Some u1)"
    by (simp add: onInstalled_def)
  show ?thesis
    unfolding p using inst user first [unfolded p] e1 [unfolded p] again [of o2 i2] same stored'
      res_open res_failed
    by simp
qed

theorem identity_is_created_once_witness:
  "peerId (snd (initialize ''v2'' ''bbbb'' ''r2'' PeerOpen True
      (new_world\<lparr>chrome_local := \<lparr>st_userId = None, st_peerId = Some ''aaaa'', st_nickname = None\<rparr>\<rparr>)))
     = Some ''aaaa''
   \<and> fst (initialize ''v2'' ''bbbb'' ''r2'' PeerOpen True
      (new_world\<lparr>chrome_local := \<lparr>st_userId = None, st_peerId = Some ''aaaa'', st_nickname = None\<rparr>\<rparr>))
     = InitSuccess (Some ''aaaa'') (Some ''yt-v2-r2'') False
   \<and> peerId (snd (initialize ''v1'' ''aaaa'' ''r1'' PeerFailed True new_world)) = Some ''aaaa''
   \<and> onInstalled ''bbbb'' (onInstalled ''aaaa'' \<lparr>st_userId = None, st_peerId = None, st_nickname = None\<rparr>)
      = \<lparr>st_userId = Some ''aaaa'', st_peerId = None, st_nickname = None\<rparr>"
proof -
  have fresh: "(''aaaa'' :: string) \<noteq> []"
    by simp
  have same_installation:
    "chrome_local
       (new_world\<lparr>chrome_local := \<lparr>st_userId = None, st_peerId = Some ''aaaa'', st_nickname = None\<rparr>\<rparr>)
     = chrome_local (run strip_tags (snd (initialize ''v1'' ''aaaa'' ''r1'' PeerFailed True new_world))
         [JoinRoom ''x'', Cleanup])"
    by (simp add: session_defs example_defs Let_def truthy_def)
  show ?thesis
    using identity_is_created_once [OF fresh same_installation, of "''bbbb''"
        "\<lparr>st_userId = None, st_peerId = None, st_nickname = None\<rparr>" "''v2''" "''r2''" PeerOpen True]
    by (simp add: onInstalled_def truthy_def session_defs example_defs Let_def)
qed

subsection \<open>Joining a room\<close>

text \<open>
  Claim C10. For every room id, \<open>joinRoom\<close> makes it the active room and returns
  success with that id and the stored messages of the room; nothing checks that the
  room exists. The hypothesis is about the session, not the room id: a session on the
  fallback has its socket.
\<close>

theorem joinRoom_accepts_any_room_id:
  assumes "useWebSocketFallback w \<longrightarrow> socket w \<noteq> None"
  shows "fst (joinRoom r w) = JoinSuccess r (getMessagesForRoom r 50 (store w))
         \<and> roomId (snd (joinRoom r w)) = Some r"
  using assms by (auto simp: joinRoom_def Let_def split: option.splits)

theorem joinRoom_accepts_any_room_id_witness:
  "fst (joinRoom ''no such room''
          (snd (initialize ''v'' ''aaaa'' ''rrrr'' PeerFailed True new_world)))
     = JoinSuccess ''no such room'' []
   \<and> roomId (snd (joinRoom ''no such room''
          (snd (initialize ''v'' ''aaaa'' ''rrrr'' PeerFailed True new_world))))
     = Some ''no such room''
   \<and> emitted (snd (joinRoom ''no such room''
          (snd (initialize ''v'' ''aaaa'' ''rrrr'' PeerFailed True new_world))))
     = [JoinRoomEvent (Some ''no such room'') (Some ''aaaa'')]"
proof -
  have on_fallback:
    "useWebSocketFallback (snd (initialize ''v'' ''aaaa'' ''rrrr'' PeerFailed True new_world))
     \<longrightarrow> socket (snd (initialize ''v'' ''aaaa'' ''rrrr'' PeerFailed True new_world)) \<noteq> None"
    by (simp add: session_defs example_defs Let_def)
  have ev: "emitted (snd (joinRoom ''no such room''
          (snd (initialize ''v'' ''aaaa'' ''rrrr'' PeerFailed True new_world))))
     = [JoinRoomEvent (Some ''no such room'') (Some ''aaaa'')]"
    by (simp add: session_defs example_defs Let_def)
  show ?thesis
    using joinRoom_accepts_any_room_id [OF on_fallback, of "''no such room''"] ev
    by (simp add: session_defs example_defs Let_def getMessagesForRoom_eq rows_of_room_def)
qed

end
